theory Spec2Isabelle
  imports Complex_Main
begin

section \<open>Python values shared by the embedding\<close>

text \<open>
  Exceptions are values. Every constructor stands for an instance of Python's
  \<^verbatim>\<open>Exception\<close> class, which is what the handlers of \<^verbatim>\<open>helpers/transfer.py\<close>
  (\<^verbatim>\<open>except Exception as e\<close>) catch. \<open>OtherError\<close> covers whatever the external
  client, the operating system or the parallel engine may raise.
\<close>

datatype exn =
    ValueError string
  | AttributeError string
  | ZeroDivisionError string
  | OtherError string

section \<open>Concurrency ceilings (transfer.py, lines 10 to 21)\<close>

text \<open>
  \<^verbatim>\<open>os.getenv\<close> yields \<^verbatim>\<open>None\<close> for an unset variable and its string otherwise; the
  \<^verbatim>\<open>or\<close> chain under \<^verbatim>\<open>bool(...)\<close> is true exactly when one of the four values is
  truthy, and a string is truthy when it is not empty.
\<close>

definition truthy :: "string option \<Rightarrow> bool" where
  "truthy v = (case v of None \<Rightarrow> False | Some s \<Rightarrow> s \<noteq> [])"

definition IS_CONSTRAINED :: "(string \<Rightarrow> string option) \<Rightarrow> bool" where
  "IS_CONSTRAINED getenv =
     (truthy (getenv ''RENDER'') \<or> truthy (getenv ''RENDER_EXTERNAL_URL'') \<or>
      truthy (getenv ''REPLIT_DEPLOYMENT'') \<or> truthy (getenv ''REPL_ID''))"

definition MAX_DOWNLOAD_CONNECTIONS :: "(string \<Rightarrow> string option) \<Rightarrow> int" where
  "MAX_DOWNLOAD_CONNECTIONS getenv = (if IS_CONSTRAINED getenv then 12 else 16)"

definition MAX_UPLOAD_CONNECTIONS :: "(string \<Rightarrow> string option) \<Rightarrow> int" where
  "MAX_UPLOAD_CONNECTIONS getenv = (if IS_CONSTRAINED getenv then 8 else 10)"

section \<open>Connection-count planner (transfer.py, lines 108 to 122)\<close>

text \<open>
  \<^verbatim>\<open>file_size / full_size\<close> is Python's true division of two integers and the product
  with \<^verbatim>\<open>max_count\<close> is a float product: each yields the double nearest to the exact
  value. The embedding computes over the rationals and takes that rounding as the
  parameter \<open>rnd\<close>, applied where Python rounds: to the quotient, to \<^verbatim>\<open>max_count\<close>
  when it is converted to a float, and to the product. \<^verbatim>\<open>//\<close> is floor division, which
  is \<open>div\<close> on \<open>int\<close>. Dividing by a zero \<^verbatim>\<open>full_size\<close> raises.
  Operands beyond the range of finite doubles (sizes of \<open>2 ^ 1024\<close> bytes and more) are
  outside the embedding.
\<close>

definition optimized_connection_count ::
    "(rat \<Rightarrow> rat) \<Rightarrow> int \<Rightarrow> int \<Rightarrow> int \<Rightarrow> exn + int" where
  "optimized_connection_count rnd file_size max_count full_size =
     (if file_size \<ge> full_size then Inr max_count
      else
        let min_connections = min 6 (max_count div 2) in
        if full_size = 0 then Inl (ZeroDivisionError ''division by zero'')
        else Inr (max min_connections
               \<lceil>rnd (rnd (of_int file_size / of_int full_size) * rnd (of_int max_count))\<rceil>))"

text \<open>
  The defaults of the signature: \<^verbatim>\<open>max_count=MAX_DOWNLOAD_CONNECTIONS\<close> and
  \<^verbatim>\<open>full_size=100*1024*1024\<close>. Line 122 installs the function, with these defaults, as
  the static method \<^verbatim>\<open>ParallelTransferrer._get_connection_count\<close>; an argument left
  out by the caller is \<open>None\<close> here.
\<close>

definition get_connection_count ::
    "(string \<Rightarrow> string option) \<Rightarrow> (rat \<Rightarrow> rat) \<Rightarrow> int \<Rightarrow> int option \<Rightarrow> int option \<Rightarrow> exn + int" where
  "get_connection_count getenv rnd file_size max_count full_size =
     optimized_connection_count rnd file_size
       (case max_count of None \<Rightarrow> MAX_DOWNLOAD_CONNECTIONS getenv | Some m \<Rightarrow> m)
       (case full_size of None \<Rightarrow> 100 * 1024 * 1024 | Some f \<Rightarrow> f)"

text \<open>
  What is known of the rounding. A finite double is \<open>m * 2 ^ e\<close> with a mantissa below
  \<open>2 ^ 53\<close> in magnitude; rounding to nearest leaves such a value unchanged and is
  monotone.
\<close>

definition is_double :: "rat \<Rightarrow> bool" where
  "is_double x = (\<exists>m e :: int. \<bar>m\<bar> < 2 ^ 53 \<and> - 1074 \<le> e \<and> e \<le> 971 \<and> x = of_int m * 2 powi e)"

definition faithful_rounding :: "(rat \<Rightarrow> rat) \<Rightarrow> bool" where
  "faithful_rounding rnd =
     ((\<forall>x y. x \<le> y \<longrightarrow> rnd x \<le> rnd y) \<and> (\<forall>x. is_double x \<longrightarrow> rnd x = x))"

text \<open>
  The proportional count of the last line, before \<^verbatim>\<open>math.ceil\<close>, named so that
  the lemmas below can speak of it.
\<close>

definition proportional :: "(rat \<Rightarrow> rat) \<Rightarrow> int \<Rightarrow> int \<Rightarrow> int \<Rightarrow> rat" where
  "proportional rnd file_size max_count full_size =
     rnd (rnd (of_int file_size / of_int full_size) * rnd (of_int max_count))"

section \<open>Messages and media (the Telethon objects read by transfer.py)\<close>






datatype input_file = InputFile int

section \<open>The external collaborators and the trace of calls\<close>



section \<open>download_media_fast (transfer.py, lines 23 to 81)\<close>









section \<open>upload_media_fast (transfer.py, lines 83 to 106)\<close>


section \<open>The size that the metadata gives\<close>


section \<open>Concrete runs\<close>








section \<open>Properties of the planner\<close>

lemma faithful_rounding_exact: "faithful_rounding (\<lambda>x. x)"
  by (simp add: faithful_rounding_def)

text \<open>
  Claim C6. For every \<open>total_size \<ge> full_size\<close> the planner returns exactly
  \<open>max_count\<close>, whatever the rounding of the float operations is.
\<close>

theorem planner_saturates:
  assumes "full_size \<le> total_size"
  shows "optimized_connection_count rnd total_size max_count full_size = Inr max_count"
  using assms by (simp add: optimized_connection_count_def)

theorem planner_saturates_witness:
  "(104857600 :: int) \<le> 209715200 \<and>
   optimized_connection_count (\<lambda>x. x) 209715200 16 104857600 = Inr 16"
  using planner_saturates [of 104857600 209715200 "\<lambda>x. x" 16] by simp

lemma is_double_of_int: "\<bar>n\<bar> < 2 ^ 53 \<Longrightarrow> is_double (of_int n)"
  unfolding is_double_def by (rule exI [of _ n], rule exI [of _ 0]) simp

lemma rnd_of_int:
  "faithful_rounding rnd \<Longrightarrow> \<bar>n\<bar> < 2 ^ 53 \<Longrightarrow> rnd (of_int n) = of_int n"
  using is_double_of_int [of n] by (simp add: faithful_rounding_def)

lemma rnd_mono: "faithful_rounding rnd \<Longrightarrow> x \<le> y \<Longrightarrow> rnd x \<le> rnd y"
  by (simp add: faithful_rounding_def)

lemma proportional_mono:
  assumes r: "faithful_rounding rnd" and m: "0 \<le> max_count" "max_count < 2 ^ 53"
    and st: "s \<le> t" and f: "0 < full_size"
  shows "proportional rnd s max_count full_size \<le> proportional rnd t max_count full_size"
proof -
  have mc: "rnd (of_int max_count) = of_int max_count"
    using r m by (intro rnd_of_int) auto
  have "(of_int s :: rat) / of_int full_size \<le> of_int t / of_int full_size"
    using st f by (simp add: divide_right_mono)
  then have "rnd (of_int s / of_int full_size) \<le> rnd (of_int t / of_int full_size)"
    by (rule rnd_mono [OF r])
  then have "rnd (of_int s / of_int full_size) * of_int max_count
      \<le> rnd (of_int t / of_int full_size) * of_int max_count"
    using m by (simp add: mult_right_mono)
  then show ?thesis
    unfolding proportional_def mc by (rule rnd_mono [OF r])
qed

lemma proportional_zero:
  assumes r: "faithful_rounding rnd"
  shows "proportional rnd 0 max_count full_size = 0"
proof -
  have z: "rnd 0 = 0" using rnd_of_int [OF r, of 0] by simp
  show ?thesis by (simp add: proportional_def z)
qed

lemma proportional_le_max:
  assumes r: "faithful_rounding rnd" and m: "0 \<le> max_count" "max_count < 2 ^ 53"
    and t: "t < full_size" and f: "0 < full_size"
  shows "proportional rnd t max_count full_size \<le> of_int max_count"
proof -
  have mc: "rnd (of_int max_count) = of_int max_count"
    using r m by (intro rnd_of_int) auto
  have one: "rnd 1 = 1" using rnd_of_int [OF r, of 1] by simp
  have "(of_int t :: rat) / of_int full_size \<le> 1"
    using t f by simp
  then have "rnd (of_int t / of_int full_size) \<le> 1"
    using rnd_mono [OF r, of "of_int t / of_int full_size" 1] one by simp
  then have "rnd (of_int t / of_int full_size) * of_int max_count \<le> 1 * of_int max_count"
    using m by (intro mult_right_mono) auto
  then have "rnd (rnd (of_int t / of_int full_size) * of_int max_count) \<le> rnd (of_int max_count)"
    using rnd_mono [OF r] by simp
  then show ?thesis
    unfolding proportional_def mc .
qed

lemma planner_eq:
  "file_size < full_size \<Longrightarrow> 0 < full_size \<Longrightarrow>
   optimized_connection_count rnd file_size max_count full_size =
     Inr (max (min 6 (max_count div 2)) \<lceil>proportional rnd file_size max_count full_size\<rceil>)"
  by (simp add: optimized_connection_count_def proportional_def)

text \<open>
  Claim C7. Below \<open>full_size\<close> the planner is monotone: for sizes
  \<open>0 \<le> s \<le> t < full_size\<close> it returns counts \<open>a \<le> b\<close>, none below
  \<open>min 6 (max_count div 2)\<close> and none above \<open>max_count\<close>; at size \<open>0\<close> it returns
  exactly \<open>min 6 (max_count div 2)\<close>, which is not zero for the download and the upload
  ceiling of either environment. The ceiling is a count (\<open>0 \<le> max_count\<close>) that
  a double holds exactly, and the float operations round monotonically and leave
  doubles unchanged.
\<close>

theorem planner_monotone_bounded:
  assumes r: "faithful_rounding rnd" and m: "0 \<le> max_count" "max_count < 2 ^ 53"
    and s: "0 \<le> s" and st: "s \<le> t" and t: "t < full_size"
  shows "\<exists>a b z.
      optimized_connection_count rnd s max_count full_size = Inr a \<and>
      optimized_connection_count rnd t max_count full_size = Inr b \<and>
      optimized_connection_count rnd 0 max_count full_size = Inr z \<and>
      a \<le> b \<and> min 6 (max_count div 2) \<le> a \<and> b \<le> max_count \<and>
      z = min 6 (max_count div 2) \<and>
      min 6 (MAX_DOWNLOAD_CONNECTIONS getenv div 2) \<noteq> 0 \<and>
      min 6 (MAX_UPLOAD_CONNECTIONS getenv div 2) \<noteq> 0"
proof -
  have f: "0 < full_size" using s st t by simp
  let ?P = "\<lambda>x. proportional rnd x max_count full_size"
  let ?lo = "min 6 (max_count div 2)"
  have lo0: "0 \<le> ?lo" using m by simp
  have lom: "?lo \<le> max_count" using m by simp
  have "\<lceil>?P s\<rceil> \<le> \<lceil>?P t\<rceil>"
    by (rule ceiling_mono) (rule proportional_mono [OF r m st f])
  then have ab: "max ?lo \<lceil>?P s\<rceil> \<le> max ?lo \<lceil>?P t\<rceil>"
    by (rule max.mono [OF order_refl])
  have "\<lceil>?P t\<rceil> \<le> max_count"
    using proportional_le_max [OF r m t f] by (simp only: ceiling_le_iff)
  then have b: "max ?lo \<lceil>?P t\<rceil> \<le> max_count" using lom by (rule max.boundedI [rotated])
  have z: "max ?lo \<lceil>?P 0\<rceil> = ?lo"
    using lo0 by (simp only: proportional_zero [OF r] ceiling_zero max.absorb1)
  have c1: "min 6 (MAX_DOWNLOAD_CONNECTIONS getenv div 2) \<noteq> 0"
    by (simp add: MAX_DOWNLOAD_CONNECTIONS_def)
  have c2: "min 6 (MAX_UPLOAD_CONNECTIONS getenv div 2) \<noteq> 0"
    by (simp add: MAX_UPLOAD_CONNECTIONS_def)
  have es: "optimized_connection_count rnd s max_count full_size = Inr (max ?lo \<lceil>?P s\<rceil>)"
    using st t f by (intro planner_eq) auto
  have et: "optimized_connection_count rnd t max_count full_size = Inr (max ?lo \<lceil>?P t\<rceil>)"
    using t f by (intro planner_eq) auto
  have ez: "optimized_connection_count rnd 0 max_count full_size = Inr ?lo"
    using planner_eq [OF f f, of rnd max_count] z by (simp only:)
  have lo: "?lo \<le> max ?lo \<lceil>?P s\<rceil>" by (rule max.cobounded1)
  show ?thesis
    using es et ez ab lo b c1 c2 by blast
qed

theorem planner_monotone_bounded_witness:
  "faithful_rounding (\<lambda>x. x) \<and> (0::int) \<le> 16 \<and> (16::int) < 2 ^ 53 \<and> (0::int) \<le> 500000 \<and>
   (500000::int) \<le> 78643200 \<and> (78643200::int) < 104857600 \<and>
   (\<exists>a b z.
      optimized_connection_count (\<lambda>x. x) 500000 16 104857600 = Inr a \<and>
      optimized_connection_count (\<lambda>x. x) 78643200 16 104857600 = Inr b \<and>
      optimized_connection_count (\<lambda>x. x) 0 16 104857600 = Inr z \<and>
      a \<le> b \<and> min 6 (16 div 2) \<le> a \<and> b \<le> 16 \<and>
      z = min 6 (16 div 2) \<and>
      min 6 (MAX_DOWNLOAD_CONNECTIONS (\<lambda>v. None) div 2) \<noteq> 0 \<and>
      min 6 (MAX_UPLOAD_CONNECTIONS (\<lambda>v. None) div 2) \<noteq> 0)"
proof -
  have h: "(0::int) \<le> 16" "(16::int) < 2 ^ 53" "(0::int) \<le> 500000"
      "(500000::int) \<le> 78643200" "(78643200::int) < 104857600"
    by simp_all
  note w = planner_monotone_bounded [OF faithful_rounding_exact h, where getenv = "\<lambda>v. None"]
  show ?thesis
    using faithful_rounding_exact h w by (intro conjI)
qed

section \<open>Properties of the ceilings\<close>

lemma constrained_ceilings_lower:
  assumes "IS_CONSTRAINED g" and "\<not> IS_CONSTRAINED g'"
  shows "MAX_DOWNLOAD_CONNECTIONS g < MAX_DOWNLOAD_CONNECTIONS g' \<and>
    MAX_UPLOAD_CONNECTIONS g < MAX_UPLOAD_CONNECTIONS g'"
  using assms by (simp add: MAX_DOWNLOAD_CONNECTIONS_def MAX_UPLOAD_CONNECTIONS_def)

text \<open>
  Claim C9, on the code. The planner installed on the engine is called with the size
  alone: for a transfer of 200 MiB in either direction it answers the download ceiling,
  which lies above the upload ceiling in both environments.
\<close>

theorem default_planner_answers_download_ceiling:
  "get_connection_count getenv rnd 209715200 None None = Inr (MAX_DOWNLOAD_CONNECTIONS getenv) \<and>
   MAX_UPLOAD_CONNECTIONS getenv < MAX_DOWNLOAD_CONNECTIONS getenv"
  by (simp add: get_connection_count_def optimized_connection_count_def
      MAX_DOWNLOAD_CONNECTIONS_def MAX_UPLOAD_CONNECTIONS_def)

section \<open>Properties of the orchestrators\<close>


















end
